theory Spec2Isabelle
  imports Complex_Main "HOL-Library.Multiset" "HOL-Library.Sublist"
    "HOL-Library.Char_ord" "HOL-Library.List_Lexorder"
begin

section \<open>Values, cells and frames\<close>

text \<open>
  The dashboard of \<^verbatim>\<open>src/app/app.py\<close> works on a pandas DataFrame read from a CSV
  file. A Python float is modelled as a real number or the not-a-number value \<open>NaN\<close>,
  which pandas also uses for a missing cell; rounding is not modelled. A cell is text
  or a number. A frame is a header of named, typed columns and a list of rows, each row
  holding one cell per column. The dtypes are those the program asks for: object for
  text columns, int64 and float64 for numbers, and \<open>Bool\<close> for a column of any other
  dtype. Exceptions are values of the type \<open>error\<close>; the library calls behave as in
  pandas 2.
\<close>

datatype pyfloat = Fin real | NaN

datatype cell = Str string | Num pyfloat

datatype dtype = Object | Int64 | Float64 | Bool

datatype error = TypeError | KeyError | ValueError | NameError

record dataframe =
  columns :: "(string \<times> dtype) list"
  rows :: "cell list list"

text \<open>Python's \<^verbatim>\<open>x >= t\<close> on a float: every comparison with NaN is false.\<close>

fun float_ge :: "pyfloat \<Rightarrow> real \<Rightarrow> bool" where
  "float_ge (Fin x) t = (t \<le> x)"
| "float_ge NaN t = False"

section \<open>Performance bands (lines 189 to 199)\<close>

text \<open>
  \<^verbatim>\<open>categorize_performance(score)\<close>: an if/elif chain of \<^verbatim>\<open>score >= 90\<close>, \<^verbatim>\<open>80\<close>,
  \<^verbatim>\<open>70\<close>, \<^verbatim>\<open>60\<close>, with a final else. Comparing text with a number raises TypeError at
  the first test.
\<close>

fun categorize_performance :: "cell \<Rightarrow> error + string" where
  "categorize_performance (Str s) = Inl TypeError"
| "categorize_performance (Num score) = Inr
     (if float_ge score 90 then ''Excellent (90-100)''
      else if float_ge score 80 then ''Very Good (80-89)''
      else if float_ge score 70 then ''Good (70-79)''
      else if float_ge score 60 then ''Satisfactory (60-69)''
      else ''Needs Improvement (<60)'')"

text \<open>The display order of the bands (lines 205 and 206).\<close>

definition order :: "string list" where
  "order = [''Excellent (90-100)'', ''Very Good (80-89)'', ''Good (70-79)'',
            ''Satisfactory (60-69)'', ''Needs Improvement (<60)'']"

section \<open>Column access\<close>

text \<open>\<^verbatim>\<open>df[col]\<close>: the cells of one column, top to bottom; KeyError for an unknown name.\<close>

fun col_index :: "string \<Rightarrow> (string \<times> dtype) list \<Rightarrow> nat option" where
  "col_index c [] = None"
| "col_index c ((n, t) # cs) = (if n = c then Some 0 else map_option Suc (col_index c cs))"

definition getitem :: "dataframe \<Rightarrow> string \<Rightarrow> error + cell list" where
  "getitem df c =
     (case col_index c (columns df) of
        None \<Rightarrow> Inl KeyError
      | Some i \<Rightarrow> Inr (map (\<lambda>r. r ! i) (rows df)))"

section \<open>Pass rate (lines 119 and 120)\<close>

text \<open>
  \<^verbatim>\<open>(series >= 60).mean() * 100\<close>. The comparison is elementwise and gives a boolean
  Series of the same length; a text cell raises TypeError. The mean of a boolean Series
  is the sum of its values, True as 1 and False as 0, over their number, and NaN for an
  empty Series.
\<close>

fun series_ge :: "cell list \<Rightarrow> real \<Rightarrow> error + bool list" where
  "series_ge [] t = Inr []"
| "series_ge (Str s # cs) t = Inl TypeError"
| "series_ge (Num v # cs) t =
     (case series_ge cs t of Inl e \<Rightarrow> Inl e | Inr bs \<Rightarrow> Inr (float_ge v t # bs))"

definition bool_mean :: "bool list \<Rightarrow> pyfloat" where
  "bool_mean bs =
     (if bs = [] then NaN
      else Fin (sum_list (map (\<lambda>b. if b then 1 else 0) bs) / real (length bs)))"

fun float_times :: "pyfloat \<Rightarrow> real \<Rightarrow> pyfloat" where
  "float_times (Fin x) k = Fin (x * k)"
| "float_times NaN k = NaN"

definition pass_rate :: "cell list \<Rightarrow> error + pyfloat" where
  "pass_rate series =
     (case series_ge series 60 of
        Inl e \<Rightarrow> Inl e
      | Inr bs \<Rightarrow> Inr (float_times (bool_mean bs) 100))"

section \<open>Sidebar: filter selection and filtering (lines 74 to 90)\<close>

text \<open>
  \<^verbatim>\<open>data.select_dtypes(include=['object']).columns.tolist()\<close>: the names of the columns
  of dtype object, in column order.
\<close>

definition categorical_cols :: "dataframe \<Rightarrow> string list" where
  "categorical_cols df = map fst (filter (\<lambda>(n, t). t = Object) (columns df))"

text \<open>\<^verbatim>\<open>Series.unique()\<close>: the distinct values in order of first appearance, NaN once.\<close>

fun unique :: "cell list \<Rightarrow> cell list" where
  "unique [] = []"
| "unique (x # xs) = x # unique (removeAll x xs)"

text \<open>
  \<^verbatim>\<open>sorted(values)\<close> compares the values with \<^verbatim>\<open><\<close>, and Python raises TypeError when
  it compares text with a float: the call succeeds when the values are all text or all
  numbers. The order of the sorted options only lays out the widget and is not modelled.
\<close>

fun is_text :: "cell \<Rightarrow> bool" where
  "is_text (Str s) = True"
| "is_text (Num v) = False"

fun is_number :: "cell \<Rightarrow> bool" where
  "is_number (Str s) = False"
| "is_number (Num v) = True"

definition sortable :: "cell list \<Rightarrow> bool" where
  "sortable vs = (list_all is_text vs \<or> list_all is_number vs)"

text \<open>
  \<^verbatim>\<open>st.multiselect(label, options, default=[])\<close> returns what the user has picked among the
  options. The user is the function \<open>picks\<close>, from a column to the values picked for it.
\<close>

definition multiselect :: "cell list \<Rightarrow> cell list \<Rightarrow> cell list" where
  "multiselect picked options = filter (\<lambda>v. v \<in> set options) picked"

text \<open>
  The loop of lines 78 to 84 over \<^verbatim>\<open>categorical_cols[:3]\<close>, building the dictionary
  \<^verbatim>\<open>filter_selections\<close> in insertion order.
\<close>

fun offer_selectors ::
  "(string \<Rightarrow> cell list) \<Rightarrow> dataframe \<Rightarrow> string list \<Rightarrow> error + (string \<times> cell list) list" where
  "offer_selectors picks data [] = Inr []"
| "offer_selectors picks data (col # cols) =
     (case getitem data col of
        Inl e \<Rightarrow> Inl e
      | Inr series \<Rightarrow>
          if length (unique series) < 10 then
            if sortable (unique series) then
              (case offer_selectors picks data cols of
                 Inl e \<Rightarrow> Inl e
               | Inr sel \<Rightarrow> Inr ((col, multiselect (picks col) (unique series)) # sel))
            else Inl TypeError
          else offer_selectors picks data cols)"

definition filter_selections ::
  "(string \<Rightarrow> cell list) \<Rightarrow> dataframe \<Rightarrow> error + (string \<times> cell list) list" where
  "filter_selections picks data = offer_selectors picks data (take 3 (categorical_cols data))"

text \<open>
  \<^verbatim>\<open>series.isin(values)\<close> is the boolean mask of the cells that are among the values (NaN
  matches NaN), and \<^verbatim>\<open>df[mask]\<close> keeps the rows whose mask entry is True, in order, with
  all columns.
\<close>

definition isin :: "cell list \<Rightarrow> cell list \<Rightarrow> bool list" where
  "isin series vs = map (\<lambda>v. v \<in> set vs) series"

definition getitem_mask :: "dataframe \<Rightarrow> bool list \<Rightarrow> dataframe" where
  "getitem_mask df bmask = df\<lparr>rows := map snd (filter fst (zip bmask (rows df)))\<rparr>"

text \<open>
  Lines 88 to 90: for each entry of the dictionary with a non-empty list of selected
  values, the frame is replaced by its rows whose cell in that column is selected.
\<close>

fun apply_filters :: "(string \<times> cell list) list \<Rightarrow> dataframe \<Rightarrow> error + dataframe" where
  "apply_filters [] fd = Inr fd"
| "apply_filters ((col, selected_values) # rest) fd =
     (if selected_values \<noteq> [] then
        (case getitem fd col of
           Inl e \<Rightarrow> Inl e
         | Inr series \<Rightarrow> apply_filters rest (getitem_mask fd (isin series selected_values)))
      else apply_filters rest fd)"

text \<open>Line 87, \<^verbatim>\<open>filtered_data = data.copy()\<close>, then the loop.\<close>

definition filtered_data :: "dataframe \<Rightarrow> (string \<times> cell list) list \<Rightarrow> error + dataframe" where
  "filtered_data data sel = apply_filters sel data"

text \<open>
  The retention rule in the words of the specification: a row is kept when, for every
  column of the selection with a non-empty set of chosen values, the row's value in that
  column is one of them.
\<close>

definition row_retained :: "dataframe \<Rightarrow> (string \<times> cell list) list \<Rightarrow> cell list \<Rightarrow> bool" where
  "row_retained data sel r =
     list_all (\<lambda>(c, vs). vs = [] \<or>
       (case col_index c (columns data) of None \<Rightarrow> False | Some i \<Rightarrow> r ! i \<in> set vs)) sel"

text \<open>An example frame with four text columns and the outcome column.\<close>

definition four_text_columns :: dataframe where
  "four_text_columns =
     \<lparr>columns = [(''A'', Object), (''B'', Object), (''Exam_Score'', Int64),
                 (''C'', Object), (''D'', Object)],
      rows = [[Str ''a1'', Str ''b1'', Num (Fin 70), Str ''c1'', Str ''p''],
              [Str ''a2'', Str ''b1'', Num (Fin 50), Str ''c1'', Str ''q'']]\<rparr>"

section \<open>Loading (lines 28 to 53) and the guard of the page (lines 70, 100 and 103)\<close>

text \<open>
  The CSV parser and the object store are outside the program. They are parameters:
  \<open>read_csv\<close> gives the frame parsed from a text or the message of the exception it
  raises, and \<open>get_object\<close> gives the decoded body stored under a bucket and key, or the
  message of the exception raised while fetching, reading or decoding it. The
  notices are the calls of \<^verbatim>\<open>st.success\<close> and \<^verbatim>\<open>st.error\<close>, in order.
\<close>

record services =
  read_csv :: "string \<Rightarrow> string + dataframe"
  get_object :: "string \<Rightarrow> string \<Rightarrow> string + string"

datatype notice = Success string | Failure string

definition S3_BUCKET :: string where
  "S3_BUCKET = ''student-performance-app-files''"

definition S3_FILE_KEY :: string where
  "S3_FILE_KEY = ''StudentPerformanceFactors.csv''"

text \<open>Case 2 of \<^verbatim>\<open>load_data\<close>, lines 44 to 53: one try block around fetch and parse.\<close>

definition load_from_s3 :: "services \<Rightarrow> notice list \<times> dataframe option" where
  "load_from_s3 sv =
     (case get_object sv S3_BUCKET S3_FILE_KEY of
        Inl e \<Rightarrow> ([Failure (''Error loading data from S3: '' @ e)], None)
      | Inr body \<Rightarrow>
          (case read_csv sv body of
             Inl e \<Rightarrow> ([Failure (''Error loading data from S3: '' @ e)], None)
           | Inr data \<Rightarrow> ([Success ''Successfully loaded data from S3!''], Some data)))"

text \<open>
  \<^verbatim>\<open>load_data(uploaded_file=None)\<close>: case 1 returns the parsed upload; when parsing it
  raises, the handler reports the error and control reaches case 2.
\<close>

definition load_data :: "services \<Rightarrow> string option \<Rightarrow> notice list \<times> dataframe option" where
  "load_data sv uploaded_file =
     (case uploaded_file of
        None \<Rightarrow> load_from_s3 sv
      | Some f \<Rightarrow>
          (case read_csv sv f of
             Inr data \<Rightarrow> ([Success ''Successfully loaded uploaded file!''], Some data)
           | Inl e \<Rightarrow>
               (Failure (''Error loading uploaded file: '' @ e) # fst (load_from_s3 sv),
                snd (load_from_s3 sv))))"

text \<open>
  The sidebar, lines 67 to 100: with data it builds the selectors and filters; without,
  \<^verbatim>\<open>filtered_data = None\<close>. The page then shows the analysis tabs only when
  \<^verbatim>\<open>filtered_data is not None\<close> (line 103) and the two placeholder messages otherwise.
\<close>

definition sidebar ::
  "services \<Rightarrow> string option \<Rightarrow> (string \<Rightarrow> cell list) \<Rightarrow> error + dataframe option" where
  "sidebar sv uploaded_file picks =
     (case snd (load_data sv uploaded_file) of
        None \<Rightarrow> Inr None
      | Some data \<Rightarrow>
          (case filter_selections picks data of
             Inl e \<Rightarrow> Inl e
           | Inr sel \<Rightarrow>
               (case filtered_data data sel of
                  Inl e \<Rightarrow> Inl e
                | Inr fd \<Rightarrow> Inr (Some fd))))"

datatype page = Tabs dataframe | Placeholder

definition main_content ::
  "services \<Rightarrow> string option \<Rightarrow> (string \<Rightarrow> cell list) \<Rightarrow> error + page" where
  "main_content sv uploaded_file picks =
     (case sidebar sv uploaded_file picks of
        Inl e \<Rightarrow> Inl e
      | Inr None \<Rightarrow> Inr Placeholder
      | Inr (Some fd) \<Rightarrow> Inr (Tabs fd))"

text \<open>
  Example services: the parser accepts one text, and the bucket is unreachable.
\<close>

definition offline_services :: services where
  "offline_services =
     \<lparr>read_csv = (\<lambda>t. if t = ''a,b'' then Inr \<lparr>columns = [(''a'', Object), (''b'', Object)], rows = []\<rparr>
                        else Inl ''parse error''),
      get_object = (\<lambda>b k. Inl ''no such bucket'')\<rparr>"

section \<open>Performance category column (lines 187 to 201)\<close>

text \<open>
  \<^verbatim>\<open>series.apply(f)\<close> calls \<open>f\<close> on each cell in order; the first exception ends it.
\<close>

fun series_apply :: "(cell \<Rightarrow> error + 'a) \<Rightarrow> cell list \<Rightarrow> error + 'a list" where
  "series_apply f [] = Inr []"
| "series_apply f (c # cs) =
     (case f c of
        Inl e \<Rightarrow> Inl e
      | Inr y \<Rightarrow> (case series_apply f cs of Inl e \<Rightarrow> Inl e | Inr ys \<Rightarrow> Inr (y # ys)))"

text \<open>
  \<^verbatim>\<open>df[name] = values\<close>: a column of that name is replaced in place, otherwise the
  column is appended after the last one.
\<close>

definition setitem :: "dataframe \<Rightarrow> string \<Rightarrow> dtype \<Rightarrow> cell list \<Rightarrow> dataframe" where
  "setitem df name dt vals =
     (case col_index name (columns df) of
        None \<Rightarrow>
          df\<lparr>columns := columns df @ [(name, dt)],
             rows := map (\<lambda>(r, v). r @ [v]) (zip (rows df) vals)\<rparr>
      | Some i \<Rightarrow>
          df\<lparr>columns := (columns df)[i := (name, dt)],
             rows := map (\<lambda>(r, v). r[i := v]) (zip (rows df) vals)\<rparr>)"

text \<open>
  Lines 187 to 201, under the guard \<^verbatim>\<open>'Exam_Score' in filtered_data.columns\<close>. The labels
  are text, so the new column has dtype object; on a Series without rows \<^verbatim>\<open>apply\<close>
  returns an empty Series of the dtype of the outcome column.
\<close>

definition add_performance_category :: "dataframe \<Rightarrow> error + dataframe" where
  "add_performance_category fd =
     (case col_index ''Exam_Score'' (columns fd) of
        None \<Rightarrow> Inr fd
      | Some i \<Rightarrow>
          (case series_apply categorize_performance (map (\<lambda>r. r ! i) (rows fd)) of
             Inl e \<Rightarrow> Inl e
           | Inr labels \<Rightarrow>
               Inr (setitem fd ''Performance_Category''
                     (if labels = [] then snd (columns fd ! i) else Object)
                     (map Str labels))))"

text \<open>
  Objects and names. The frames live in a heap, a list addressed by position; the
  variables \<^verbatim>\<open>data\<close> and \<^verbatim>\<open>filtered_data\<close> hold addresses. \<^verbatim>\<open>data.copy()\<close> and \<^verbatim>\<open>df[mask]\<close>
  create a new frame and the assignment rebinds \<^verbatim>\<open>filtered_data\<close> to it; the item
  assignment of line 201 changes the frame that \<^verbatim>\<open>filtered_data\<close> is bound to.
\<close>

fun filter_loop ::
  "(string \<times> cell list) list \<Rightarrow> dataframe list \<Rightarrow> nat \<Rightarrow> error + dataframe list \<times> nat" where
  "filter_loop [] h fref = Inr (h, fref)"
| "filter_loop ((col, selected_values) # rest) h fref =
     (if selected_values \<noteq> [] then
        (case getitem (h ! fref) col of
           Inl e \<Rightarrow> Inl e
         | Inr series \<Rightarrow>
             filter_loop rest (h @ [getitem_mask (h ! fref) (isin series selected_values)])
               (length h))
      else filter_loop rest h fref)"

definition filter_then_categorize ::
  "dataframe list \<Rightarrow> nat \<Rightarrow> (string \<times> cell list) list \<Rightarrow> error + dataframe list \<times> nat" where
  "filter_then_categorize h dref sel =
     (case filter_loop sel (h @ [h ! dref]) (length h) of
        Inl e \<Rightarrow> Inl e
      | Inr (h', fref) \<Rightarrow>
          (case add_performance_category (h' ! fref) of
             Inl e \<Rightarrow> Inl e
           | Inr fd \<Rightarrow> Inr (h'[fref := fd], fref)))"

section \<open>Correlation (lines 265 to 276 and 408 to 410)\<close>

text \<open>
  The numeric view of a column for the correlation routines: pandas converts the cells
  to floats and raises ValueError at a text cell.
\<close>

fun to_floats :: "error \<Rightarrow> cell list \<Rightarrow> error + pyfloat list" where
  "to_floats e [] = Inr []"
| "to_floats e (Str s # cs) = Inl e"
| "to_floats e (Num v # cs) =
     (case to_floats e cs of Inl e' \<Rightarrow> Inl e' | Inr vs \<Rightarrow> Inr (v # vs))"

text \<open>The non-missing values of a numeric column.\<close>

fun present :: "pyfloat list \<Rightarrow> real list" where
  "present [] = []"
| "present (Fin x # xs) = x # present xs"
| "present (NaN # xs) = present xs"

definition mean :: "real list \<Rightarrow> real" where
  "mean xs = sum_list xs / real (length xs)"

text \<open>
  Pearson correlation as pandas computes it (\<^verbatim>\<open>Series.corr\<close>, \<^verbatim>\<open>DataFrame.corr\<close>, with the
  default \<^verbatim>\<open>min_periods\<close> of 1). The library keeps the rows where both values are
  present; with no such row the result is NaN without any arithmetic. Otherwise it
  computes the coefficient of the remaining pairs in double precision (means, sums of
  squared deviations and of products, a square root, a division, clipping to the
  interval from -1 to 1, and NaN for a zero divisor). That computation is done by the
  library on doubles and is not modelled: it is the parameter \<open>coefficient\<close>, from the
  pairs to the float returned.
\<close>

fun complete_pairs :: "pyfloat list \<Rightarrow> pyfloat list \<Rightarrow> (real \<times> real) list" where
  "complete_pairs (Fin x # xs) (Fin y # ys) = (x, y) # complete_pairs xs ys"
| "complete_pairs (x # xs) (y # ys) = complete_pairs xs ys"
| "complete_pairs xs ys = []"

definition pearson ::
  "((real \<times> real) list \<Rightarrow> pyfloat) \<Rightarrow> pyfloat list \<Rightarrow> pyfloat list \<Rightarrow> pyfloat" where
  "pearson coefficient xs ys =
     (let ps = complete_pairs xs ys
      in if length ps < 1 then NaN else coefficient ps)"

text \<open>
  \<^verbatim>\<open>DataFrame.corr()\<close> computes the coefficient of each pair of columns once, for the
  lower triangle, and stores it at both positions of the matrix.
\<close>

definition corr ::
  "((real \<times> real) list \<Rightarrow> pyfloat) \<Rightarrow> pyfloat list list \<Rightarrow> pyfloat list list" where
  "corr coefficient cols =
     map (\<lambda>i. map (\<lambda>j. pearson coefficient (cols ! max i j) (cols ! min i j))
                 [0..<length cols])
       [0..<length cols]"

text \<open>
  Lines 265 and 266: the columns of dtype int64 or float64 other than the outcome.
\<close>

definition numerical_cols :: "dataframe \<Rightarrow> string list" where
  "numerical_cols fd =
     filter (\<lambda>col. col \<noteq> ''Exam_Score'')
       (map fst (filter (\<lambda>(n, t). t = Int64 \<or> t = Float64) (columns fd)))"

text \<open>\<^verbatim>\<open>df[names]\<close> as the list of the numeric views of the named columns.\<close>

fun getitem_floats :: "dataframe \<Rightarrow> string list \<Rightarrow> error + pyfloat list list" where
  "getitem_floats fd [] = Inr []"
| "getitem_floats fd (n # ns) =
     (case getitem fd n of
        Inl e \<Rightarrow> Inl e
      | Inr series \<Rightarrow>
          (case to_floats ValueError series of
             Inl e \<Rightarrow> Inl e
           | Inr vs \<Rightarrow>
               (case getitem_floats fd ns of Inl e \<Rightarrow> Inl e | Inr vss \<Rightarrow> Inr (vs # vss))))"

text \<open>
  Line 410, \<^verbatim>\<open>filtered_data[numerical_cols + ['Exam_Score']].corr()\<close>, computed when there
  are at least two numerical factor columns (line 408).
\<close>

definition corr_matrix ::
  "((real \<times> real) list \<Rightarrow> pyfloat) \<Rightarrow> dataframe \<Rightarrow> error + pyfloat list list" where
  "corr_matrix coefficient fd =
     (case getitem_floats fd (numerical_cols fd @ [''Exam_Score'']) of
        Inl e \<Rightarrow> Inl e
      | Inr cols \<Rightarrow> Inr (corr coefficient cols))"

text \<open>
  The variable \<^verbatim>\<open>numerical_cols\<close> is bound at line 265, under the guard
  \<^verbatim>\<open>'Exam_Score' in filtered_data.columns\<close> of line 263. In the last tab it is read without
  that guard (lines 384 and 408): for a frame without an outcome column this raises
  NameError.
\<close>

definition correlation_heatmap ::
  "((real \<times> real) list \<Rightarrow> pyfloat) \<Rightarrow> dataframe \<Rightarrow> error + pyfloat list list option" where
  "correlation_heatmap coefficient fd =
     (if col_index ''Exam_Score'' (columns fd) = None then Inl NameError
      else if length (numerical_cols fd) > 1 then
        (case corr_matrix coefficient fd of Inl e \<Rightarrow> Inl e | Inr m \<Rightarrow> Inr (Some m))
      else Inr None)"


section \<open>Sorting by a column and the key insights (lines 273 to 279 and 358 to 360)\<close>

text \<open>
  \<^verbatim>\<open>df.sort_values(column, ascending=...)\<close> with the default \<^verbatim>\<open>kind='quicksort'\<close> and
  \<^verbatim>\<open>na_position='last'\<close>. pandas sorts the positions of the rows: it separates the rows
  whose key is NaN, arg-sorts the other keys in ascending order with the numpy routine of
  the given kind, and for a descending sort reverses the keys before and the positions
  after that call; the NaN rows go last. The numpy routine is the parameter \<open>kind\<close>, from
  a list of keys to the list of their positions in sorted order.
\<close>

definition sort_values ::
  "(real list \<Rightarrow> nat list) \<Rightarrow> ('a \<Rightarrow> pyfloat) \<Rightarrow> bool \<Rightarrow> 'a list \<Rightarrow> 'a list" where
  "sort_values kind key ascending rs =
     (let items = map key rs;
          idx = [0..<length items];
          non_nan_idx = filter (\<lambda>i. items ! i \<noteq> NaN) idx;
          nan_idx = filter (\<lambda>i. items ! i = NaN) idx;
          non_nans = present items;
          non_nans' = (if ascending then non_nans else rev non_nans);
          non_nan_idx' = (if ascending then non_nan_idx else rev non_nan_idx);
          indexer = map (\<lambda>k. non_nan_idx' ! k) (kind non_nans');
          indexer' = (if ascending then indexer else rev indexer)
      in map (\<lambda>i. rs ! i) (indexer' @ nan_idx))"

text \<open>
  What numpy promises of an arg-sort of any kind: the result lists every position once,
  and the keys read in that order are ascending. Only the kinds \<^verbatim>\<open>'stable'\<close> and
  \<^verbatim>\<open>'mergesort'\<close> promise more, namely that equal keys keep their order; \<open>stable_argsort\<close>
  is that routine. What the default kind does with equal keys is decided inside numpy,
  by a routine chosen for the processor at run time, and is not modelled.
\<close>

definition valid_argsort :: "(real list \<Rightarrow> nat list) \<Rightarrow> bool" where
  "valid_argsort kind =
     (\<forall>ks. mset (kind ks) = mset [0..<length ks] \<and> sorted (map (\<lambda>i. ks ! i) (kind ks)))"

definition stable_argsort :: "real list \<Rightarrow> nat list" where
  "stable_argsort ks = map snd (sort_key fst (zip ks [0..<length ks]))"

text \<open>Python's \<^verbatim>\<open>x > 0\<close> and \<^verbatim>\<open>x < 0\<close> on a float; false for NaN.\<close>

fun float_gt :: "pyfloat \<Rightarrow> real \<Rightarrow> bool" where
  "float_gt (Fin x) t = (t < x)"
| "float_gt NaN t = False"

fun float_lt :: "pyfloat \<Rightarrow> real \<Rightarrow> bool" where
  "float_lt (Fin x) t = (x < t)"
| "float_lt NaN t = False"

text \<open>
  Lines 273 to 276: one entry per numerical factor, in column order, with its
  correlation with the outcome.
\<close>

fun correlations ::
  "((real \<times> real) list \<Rightarrow> pyfloat) \<Rightarrow> dataframe \<Rightarrow> string list \<Rightarrow>
   error + (string \<times> pyfloat) list" where
  "correlations coefficient fd [] = Inr []"
| "correlations coefficient fd (col # cols) =
     (case getitem_floats fd [col, ''Exam_Score''] of
        Inl e \<Rightarrow> Inl e
      | Inr vss \<Rightarrow>
          (case correlations coefficient fd cols of
             Inl e \<Rightarrow> Inl e
           | Inr es \<Rightarrow> Inr ((col, pearson coefficient (vss ! 0) (vss ! 1)) # es)))"

text \<open>Lines 278 and 279, then lines 359 and 360.\<close>

definition corr_df ::
  "(real list \<Rightarrow> nat list) \<Rightarrow> (string \<times> pyfloat) list \<Rightarrow> (string \<times> pyfloat) list" where
  "corr_df kind entries = sort_values kind snd False entries"

definition top_positive ::
  "(real list \<Rightarrow> nat list) \<Rightarrow> (string \<times> pyfloat) list \<Rightarrow> (string \<times> pyfloat) list" where
  "top_positive kind entries = take 3 (filter (\<lambda>e. float_gt (snd e) 0) (corr_df kind entries))"

definition top_negative ::
  "(real list \<Rightarrow> nat list) \<Rightarrow> (string \<times> pyfloat) list \<Rightarrow> (string \<times> pyfloat) list" where
  "top_negative kind entries =
     take 3 (sort_values kind snd True (filter (\<lambda>e. float_lt (snd e) 0) (corr_df kind entries)))"

text \<open>The number held by a float that is not NaN.\<close>

fun the_fin :: "pyfloat \<Rightarrow> real" where
  "the_fin (Fin x) = x"
| "the_fin NaN = 0"

section \<open>Overview metrics (lines 113 to 126) and the group summary (lines 226 to 228)\<close>

text \<open>
  \<^verbatim>\<open>Series.mean()\<close>, \<^verbatim>\<open>min()\<close> and \<^verbatim>\<open>max()\<close> of a numeric Series skip the missing values
  and give NaN when no value is left. The difference of two floats is NaN when one of
  them is.
\<close>

definition series_mean :: "pyfloat list \<Rightarrow> pyfloat" where
  "series_mean xs = (if present xs = [] then NaN else Fin (mean (present xs)))"

definition series_min :: "pyfloat list \<Rightarrow> pyfloat" where
  "series_min xs =
     (case present xs of [] \<Rightarrow> NaN | y # ys \<Rightarrow> Fin (fold min ys y))"

definition series_max :: "pyfloat list \<Rightarrow> pyfloat" where
  "series_max xs =
     (case present xs of [] \<Rightarrow> NaN | y # ys \<Rightarrow> Fin (fold max ys y))"

fun float_minus :: "pyfloat \<Rightarrow> pyfloat \<Rightarrow> pyfloat" where
  "float_minus (Fin x) (Fin y) = Fin (x - y)"
| "float_minus x y = NaN"

text \<open>
  The four metrics of the overview tab. The score metrics are shown only when the frame
  has an outcome column; the mean of a column with a text cell raises TypeError, and it
  is evaluated first.
\<close>

record score_metrics =
  average :: pyfloat
  average_delta :: pyfloat
  pass_percent :: pyfloat
  pass_delta :: pyfloat
  score_min :: pyfloat
  score_max :: pyfloat

record overview =
  scores :: "score_metrics option"
  total_students :: nat

definition key_metrics :: "dataframe \<Rightarrow> dataframe \<Rightarrow> error + overview" where
  "key_metrics data fd =
     (case getitem fd ''Exam_Score'' of
        Inl e \<Rightarrow> Inr \<lparr>scores = None, total_students = length (rows fd)\<rparr>
      | Inr fs \<Rightarrow>
          (case to_floats TypeError fs of
             Inl e \<Rightarrow> Inl e
           | Inr xs \<Rightarrow>
               (case getitem data ''Exam_Score'' of
                  Inl e \<Rightarrow> Inl e
                | Inr ds \<Rightarrow>
                    (case to_floats TypeError ds of
                       Inl e \<Rightarrow> Inl e
                     | Inr ys \<Rightarrow>
                         (case pass_rate fs of
                            Inl e \<Rightarrow> Inl e
                          | Inr pr \<Rightarrow>
                              (case pass_rate ds of
                                 Inl e \<Rightarrow> Inl e
                               | Inr overall \<Rightarrow>
                                   Inr \<lparr>scores = Some
                                          \<lparr>average = series_mean xs,
                                           average_delta = float_minus (series_mean xs) (series_mean ys),
                                           pass_percent = pr,
                                           pass_delta = float_minus pr overall,
                                           score_min = series_min xs,
                                           score_max = series_max xs\<rparr>,
                                        total_students = length (rows fd)\<rparr>))))))"

text \<open>
  \<^verbatim>\<open>groupby(selected_cat)['Exam_Score'].agg(['mean', 'count'])\<close>, then
  \<^verbatim>\<open>sort_values('Average Score', ascending=False)\<close>. The groups are the distinct values of
  the category column that are not missing, in sorted order (numbers before text); each
  group has the mean of its scores and the number of its scores that are not missing.
\<close>

fun numbers_of :: "cell list \<Rightarrow> real list" where
  "numbers_of [] = []"
| "numbers_of (Num (Fin x) # cs) = x # numbers_of cs"
| "numbers_of (c # cs) = numbers_of cs"

fun texts_of :: "cell list \<Rightarrow> string list" where
  "texts_of [] = []"
| "texts_of (Str s # cs) = s # texts_of cs"
| "texts_of (c # cs) = texts_of cs"

definition group_keys :: "cell list \<Rightarrow> cell list" where
  "group_keys cats =
     map (\<lambda>x. Num (Fin x)) (sort (remdups (numbers_of cats)))
     @ map Str (sort (remdups (texts_of cats)))"

definition group_summary ::
  "(real list \<Rightarrow> nat list) \<Rightarrow> dataframe \<Rightarrow> string \<Rightarrow> error + (cell \<times> pyfloat \<times> nat) list" where
  "group_summary kind fd selected_cat =
     (case getitem fd selected_cat of
        Inl e \<Rightarrow> Inl e
      | Inr cats \<Rightarrow>
          (case getitem fd ''Exam_Score'' of
             Inl e \<Rightarrow> Inl e
           | Inr fs \<Rightarrow>
               (case to_floats TypeError fs of
                  Inl e \<Rightarrow> Inl e
                | Inr xs \<Rightarrow>
                    Inr (sort_values kind (\<lambda>(k, m, n). m) False
                          (map (\<lambda>k. (k,
                                  series_mean (map snd (filter (\<lambda>(c, x). c = k) (zip cats xs))),
                                  length (present (map snd (filter (\<lambda>(c, x). c = k) (zip cats xs))))))
                             (group_keys cats))))))"

text \<open>An example frame of ten students with only the outcome column.\<close>

definition ten_scores :: dataframe where
  "ten_scores =
     \<lparr>columns = [(''Exam_Score'', Int64)],
      rows = map (\<lambda>x. [Num (Fin x)]) [50, 55, 60, 65, 70, 75, 80, 85, 90, 95]\<rparr>"

text \<open>
  An example frame in which no row is both of gender M and of a private school, and a
  selection of these two values.
\<close>

definition two_students :: dataframe where
  "two_students =
     \<lparr>columns = [(''Gender'', Object), (''School_Type'', Object),
                 (''Hours_Studied'', Int64), (''Attendance'', Int64), (''Exam_Score'', Int64)],
      rows = [[Str ''M'', Str ''Public'', Num (Fin 20), Num (Fin 80), Num (Fin 70)],
              [Str ''F'', Str ''Private'', Num (Fin 25), Num (Fin 90), Num (Fin 75)]]\<rparr>"

definition male_private :: "(string \<times> cell list) list" where
  "male_private = [(''Gender'', [Str ''M'']), (''School_Type'', [Str ''Private''])]"

section \<open>Theorems\<close>

subsection \<open>Performance bands\<close>

text \<open>
  C4. For every numeric score the function returns one label, chosen by the thresholds
  90, 80, 70 and 60 read top-down: at least 90 is Excellent, from 80 below 90 is Very
  Good, from 70 below 80 is Good, from 60 below 70 is Satisfactory, below 60 is Needs
  Improvement. The five labels are pairwise different, so the bands do not overlap, and
  the boundary scores 59, 60, 69, 70, 79, 80, 89, 90 and 100 fall in the bands the
  specification lists.
\<close>

theorem categorize_performance_bands:
  "(90 \<le> x \<longrightarrow> categorize_performance (Num (Fin x)) = Inr ''Excellent (90-100)'')
   \<and> (80 \<le> x \<and> x < 90 \<longrightarrow> categorize_performance (Num (Fin x)) = Inr ''Very Good (80-89)'')
   \<and> (70 \<le> x \<and> x < 80 \<longrightarrow> categorize_performance (Num (Fin x)) = Inr ''Good (70-79)'')
   \<and> (60 \<le> x \<and> x < 70 \<longrightarrow> categorize_performance (Num (Fin x)) = Inr ''Satisfactory (60-69)'')
   \<and> (x < 60 \<longrightarrow> categorize_performance (Num (Fin x)) = Inr ''Needs Improvement (<60)'')
   \<and> (\<exists>l. categorize_performance (Num (Fin x)) = Inr l \<and> l \<in> set order)
   \<and> distinct order
   \<and> map (\<lambda>s. categorize_performance (Num (Fin s))) [59, 60, 69, 70, 79, 80, 89, 90, 100]
       = map Inr [''Needs Improvement (<60)'', ''Satisfactory (60-69)'', ''Satisfactory (60-69)'',
                  ''Good (70-79)'', ''Good (70-79)'', ''Very Good (80-89)'', ''Very Good (80-89)'',
                  ''Excellent (90-100)'', ''Excellent (90-100)'']"
  by (simp add: order_def)

theorem categorize_performance_bands_witness:
  "categorize_performance (Num (Fin 95)) = Inr ''Excellent (90-100)''
   \<and> categorize_performance (Num (Fin 85)) = Inr ''Very Good (80-89)''
   \<and> categorize_performance (Num (Fin 75)) = Inr ''Good (70-79)''
   \<and> categorize_performance (Num (Fin 65)) = Inr ''Satisfactory (60-69)''
   \<and> categorize_performance (Num (Fin 12)) = Inr ''Needs Improvement (<60)''"
  using categorize_performance_bands [of 95] categorize_performance_bands [of 85]
    categorize_performance_bands [of 75] categorize_performance_bands [of 65]
    categorize_performance_bands [of 12]
  by simp

subsection \<open>Pass rate\<close>

lemma series_ge_numeric: "series_ge (map Num xs) t = Inr (map (\<lambda>v. float_ge v t) xs)"
  by (induction xs) simp_all

lemma sum_list_indicator:
  "sum_list (map ((\<lambda>b. if b then 1 else 0) \<circ> P) xs) = real (length (filter P xs))"
  by (induction xs) simp_all

lemma pass_rate_numeric:
  "pass_rate (map Num xs) =
     Inr (if xs = [] then NaN
          else Fin (real (length (filter (\<lambda>v. float_ge v 60) xs)) / real (length xs) * 100))"
  by (simp add: pass_rate_def series_ge_numeric bool_mean_def sum_list_indicator)

text \<open>
  C6. The pass rate of a non-empty numeric outcome column is the number of rows whose
  score is at least the fixed threshold 60, over the number of rows, times 100. For the
  ten scores 50, 55, 60, 65, 70, 75, 80, 85, 90, 95 it is 80, and so is the pass rate
  shown in the overview for the frame of these ten rows without any filter.
\<close>

theorem pass_rate_fraction:
  "(xs \<noteq> [] \<longrightarrow>
      pass_rate (map Num xs) =
        Inr (Fin (real (length (filter (\<lambda>v. float_ge v 60) xs)) / real (length xs) * 100)))
   \<and> pass_rate (map (\<lambda>x. Num (Fin x)) [50, 55, 60, 65, 70, 75, 80, 85, 90, 95]) = Inr (Fin 80)
   \<and> filtered_data ten_scores [] = Inr ten_scores
   \<and> (\<exists>sm. key_metrics ten_scores ten_scores
            = Inr \<lparr>scores = Some sm, total_students = 10\<rparr> \<and> pass_percent sm = Fin 80)"
proof -
  have a: "pass_rate (map Num (map Fin [50, 55, 60, 65, 70, 75, 80, 85, 90, 95])) = Inr (Fin 80)"
    unfolding pass_rate_numeric by simp
  have b: "getitem ten_scores ''Exam_Score''
      = Inr (map Num (map Fin [50, 55, 60, 65, 70, 75, 80, 85, 90, 95]))"
    by (simp add: getitem_def ten_scores_def)
  have c: "to_floats TypeError (map Num zs) = Inr zs" for zs
    by (induction zs) simp_all
  have "\<exists>sm. key_metrics ten_scores ten_scores
            = Inr \<lparr>scores = Some sm, total_students = 10\<rparr> \<and> pass_percent sm = Fin 80"
  proof -
    from a have "pass_rate [Num (Fin 50), Num (Fin 55), Num (Fin 60), Num (Fin 65),
        Num (Fin 70), Num (Fin 75), Num (Fin 80), Num (Fin 85), Num (Fin 90), Num (Fin 95)]
      = Inr (Fin 80)" by simp
    then show ?thesis
      unfolding key_metrics_def b c by (simp add: ten_scores_def)
  qed
  with a show ?thesis
    by (simp add: pass_rate_numeric filtered_data_def)
qed

theorem pass_rate_fraction_witness:
  "pass_rate (map Num [Fin 40, Fin 60, NaN, Fin 90]) = Inr (Fin 50)"
  using pass_rate_fraction [of "[Fin 40, Fin 60, NaN, Fin 90]"] by simp

text \<open>
  C10. A missing outcome value (NaN) compares false with 60, so its row is counted in the
  denominator of the pass rate and not in the numerator: the pass rate is the same as if
  the row held any failing score.
\<close>

theorem pass_rate_missing:
  "(v < 60 \<longrightarrow>
      pass_rate (map Num (xs @ NaN # ys)) = pass_rate (map Num (xs @ Fin v # ys)))
   \<and> pass_rate (map Num (xs @ NaN # ys)) =
       Inr (Fin (real (length (filter (\<lambda>v. float_ge v 60) (xs @ ys)))
                 / real (length xs + length ys + 1) * 100))"
proof -
  have "filter (\<lambda>v. float_ge v 60) (xs @ NaN # ys) = filter (\<lambda>v. float_ge v 60) (xs @ ys)"
    by simp
  moreover have "v < 60 \<Longrightarrow>
      filter (\<lambda>v. float_ge v 60) (xs @ Fin v # ys) = filter (\<lambda>v. float_ge v 60) (xs @ ys)"
    by simp
  moreover have "length (xs @ NaN # ys) = length xs + length ys + 1"
    and "length (xs @ Fin v # ys) = length xs + length ys + 1"
    by simp_all
  ultimately show ?thesis
    unfolding pass_rate_numeric by simp
qed

theorem pass_rate_missing_witness:
  "pass_rate (map Num ([Fin 70] @ NaN # [Fin 80])) = pass_rate (map Num ([Fin 70] @ Fin 10 # [Fin 80]))
   \<and> pass_rate (map Num ([Fin 70] @ NaN # [Fin 80])) = Inr (Fin (200 / 3))"
  using pass_rate_missing [of 10 "[Fin 70]" "[Fin 80]"] by auto

subsection \<open>Filtering\<close>

lemma mask_filter: "map snd (filter fst (zip (map P xs) xs)) = filter P xs"
  by (induction xs) simp_all

lemma col_index_Some_iff: "(\<exists>i. col_index c cs = Some i) \<longleftrightarrow> c \<in> fst ` set cs"
  by (induction cs) auto

lemma apply_filters_rows:
  "fst ` set sel \<subseteq> fst ` set (columns fd) \<Longrightarrow>
   \<exists>fd'. apply_filters sel fd = Inr fd' \<and> columns fd' = columns fd
     \<and> dataframe.more fd' = dataframe.more fd
     \<and> rows fd' = filter (row_retained fd sel) (rows fd)"
proof (induction sel arbitrary: fd)
  case Nil
  then show ?case by (simp add: row_retained_def)
next
  case (Cons p sel)
  obtain c vs where p: "p = (c, vs)" by (cases p)
  from Cons.prems p have "c \<in> fst ` set (columns fd)" by simp
  then obtain i where i: "col_index c (columns fd) = Some i"
    using col_index_Some_iff by fastforce
  show ?case
  proof (cases "vs = []")
    case True
    from Cons.prems have "fst ` set sel \<subseteq> fst ` set (columns fd)" by simp
    from Cons.IH [OF this] True p show ?thesis
      by (simp add: row_retained_def)
  next
    case False
    let ?fd = "getitem_mask fd (isin (map (\<lambda>r. r ! i) (rows fd)) vs)"
    have cols: "columns ?fd = columns fd" by (simp add: getitem_mask_def)
    have rws: "rows ?fd = filter (\<lambda>r. r ! i \<in> set vs) (rows fd)"
      using mask_filter [of "\<lambda>r. r ! i \<in> set vs" "rows fd"]
      by (simp add: getitem_mask_def isin_def comp_def)
    from Cons.prems cols have "fst ` set sel \<subseteq> fst ` set (columns ?fd)" by simp
    from Cons.IH [OF this] obtain fd' where fd':
      "apply_filters sel ?fd = Inr fd'" "columns fd' = columns ?fd"
      "dataframe.more fd' = dataframe.more ?fd"
      "rows fd' = filter (row_retained ?fd sel) (rows ?fd)" by blast
    have "row_retained ?fd sel = row_retained fd sel"
      by (rule ext) (simp add: row_retained_def cols)
    then have "rows fd' = filter (\<lambda>r. r ! i \<in> set vs \<and> row_retained fd sel r) (rows fd)"
      using fd'(4) rws by simp
    also have "\<dots> = filter (row_retained fd (p # sel)) (rows fd)"
      using False p i by (intro filter_cong) (simp_all add: row_retained_def)
    finally have "rows fd' = filter (row_retained fd (p # sel)) (rows fd)" .
    moreover have "apply_filters (p # sel) fd = Inr fd'"
      using False p i fd'(1) by (simp add: getitem_def)
    moreover have "dataframe.more fd' = dataframe.more fd"
      using fd'(3) by (simp add: getitem_mask_def)
    ultimately show ?thesis using fd'(2) cols by simp
  qed
qed

lemma row_retained_all_empty:
  "list_all (\<lambda>(c, vs). vs = []) sel \<Longrightarrow> row_retained data sel r"
  by (induction sel) (auto simp: row_retained_def)

text \<open>
  C1. For every frame and every selection over its columns, filtering succeeds and keeps
  exactly the rows that the retention rule keeps (for every selected column with a
  non-empty set of chosen values, the row's value is in the set), in their order and
  with the same columns. So the filtered frame has at most as many rows as the raw one,
  each of its rows is a row of the raw frame, and when every set of chosen values is
  empty the filtered frame is the raw frame.
\<close>

theorem filtered_data_subset:
  assumes "fst ` set sel \<subseteq> fst ` set (columns data)"
  shows "\<exists>fd. filtered_data data sel = Inr fd
     \<and> columns fd = columns data
     \<and> rows fd = filter (row_retained data sel) (rows data)
     \<and> length (rows fd) \<le> length (rows data)
     \<and> set (rows fd) \<subseteq> set (rows data)
     \<and> subseq (rows fd) (rows data)
     \<and> (list_all (\<lambda>(c, vs). vs = []) sel \<longrightarrow> fd = data)"
proof -
  from apply_filters_rows [OF assms] obtain fd where fd:
    "apply_filters sel data = Inr fd" "columns fd = columns data"
    "dataframe.more fd = dataframe.more data"
    "rows fd = filter (row_retained data sel) (rows data)" by blast
  have "list_all (\<lambda>(c, vs). vs = []) sel \<Longrightarrow> fd = data"
  proof -
    assume "list_all (\<lambda>(c, vs). vs = []) sel"
    then have "rows fd = rows data"
      using fd(4) row_retained_all_empty by simp
    with fd(2,3) show "fd = data" by simp
  qed
  with fd show ?thesis
    by (auto simp: filtered_data_def)
qed

theorem filtered_data_subset_witness:
  "\<exists>fd. filtered_data
      \<lparr>columns = [(''Gender'', Object), (''Exam_Score'', Int64)],
       rows = [[Str ''M'', Num (Fin 70)], [Str ''F'', Num (Fin 55)], [Str ''M'', Num (Fin 90)]]\<rparr>
      [(''Gender'', [Str ''M''])] = Inr fd
    \<and> rows fd = [[Str ''M'', Num (Fin 70)], [Str ''M'', Num (Fin 90)]]"
  using filtered_data_subset [of "[(''Gender'', [Str ''M''])]"
      "\<lparr>columns = [(''Gender'', Object), (''Exam_Score'', Int64)],
        rows = [[Str ''M'', Num (Fin 70)], [Str ''F'', Num (Fin 55)], [Str ''M'', Num (Fin 90)]]\<rparr>"]
  by (auto simp: row_retained_def)

subsection \<open>Eligibility for a selector\<close>

lemma unique_set: "set (unique xs) = set xs"
  by (induction xs rule: unique.induct) auto

lemma unique_distinct: "distinct (unique xs)"
  by (induction xs rule: unique.induct) (auto simp: unique_set)

lemma length_unique: "length (unique xs) = card (set xs)"
  using distinct_card [OF unique_distinct, of xs] by (simp add: unique_set)

lemma offer_selectors_keys:
  "offer_selectors picks data cols = Inr sel \<Longrightarrow>
   map fst sel =
     filter (\<lambda>c. \<exists>series. getitem data c = Inr series \<and> length (unique series) < 10) cols"
  by (induction cols arbitrary: sel) (auto split: sum.splits if_splits)

lemma offer_selectors_succeeds:
  "set cols \<subseteq> fst ` set (columns data) \<Longrightarrow>
   list_all (\<lambda>c. \<exists>series. getitem data c = Inr series
       \<and> (length (unique series) < 10 \<longrightarrow> sortable (unique series))) cols \<Longrightarrow>
   \<exists>sel. offer_selectors picks data cols = Inr sel"
  by (induction cols) (auto split: sum.splits)

lemma categorical_cols_columns: "set (categorical_cols data) \<subseteq> fst ` set (columns data)"
  by (auto simp: categorical_cols_def)

text \<open>
  C2, as the code has it. When the selectors are built, a column is offered a selector
  exactly when it is one of the first three categorical columns and has fewer than 10
  distinct values (a missing value counting as one value). The selectors are built unless
  such a column holds both text and a missing value, where sorting its options raises
  TypeError.
\<close>

theorem filter_selections_eligible:
  "(filter_selections picks data = Inr sel \<longrightarrow>
      (c \<in> fst ` set sel \<longleftrightarrow>
         c \<in> set (take 3 (categorical_cols data))
         \<and> (\<exists>series. getitem data c = Inr series \<and> card (set series) < 10)))
   \<and> (list_all (\<lambda>c. \<exists>series. getitem data c = Inr series
          \<and> (card (set series) < 10 \<longrightarrow> sortable (unique series)))
        (take 3 (categorical_cols data)) \<longrightarrow>
      (\<exists>sel. filter_selections picks data = Inr sel))"
proof -
  have "set (take 3 (categorical_cols data)) \<subseteq> fst ` set (columns data)"
    using categorical_cols_columns set_take_subset by fastforce
  then have "list_all (\<lambda>c. \<exists>series. getitem data c = Inr series
          \<and> (card (set series) < 10 \<longrightarrow> sortable (unique series)))
        (take 3 (categorical_cols data)) \<Longrightarrow>
      \<exists>sel. filter_selections picks data = Inr sel"
    unfolding filter_selections_def
    by (intro offer_selectors_succeeds) (simp_all add: length_unique)
  moreover have "filter_selections picks data = Inr sel \<Longrightarrow>
      fst ` set sel = {c \<in> set (take 3 (categorical_cols data)).
         \<exists>series. getitem data c = Inr series \<and> card (set series) < 10}"
  proof -
    assume "filter_selections picks data = Inr sel"
    then have "set (map fst sel) = set (filter (\<lambda>c. \<exists>series. getitem data c = Inr series
        \<and> length (unique series) < 10) (take 3 (categorical_cols data)))"
      unfolding filter_selections_def by (simp only: offer_selectors_keys)
    then show ?thesis by (simp add: length_unique)
  qed
  ultimately show ?thesis by blast
qed

theorem filter_selections_eligible_witness:
  "(\<exists>sel. filter_selections (\<lambda>c. []) four_text_columns = Inr sel)
   \<and> ''B'' \<in> fst ` set [(''A'', []), (''B'', []), (''C'', [])]"
  using filter_selections_eligible [of "\<lambda>c. []" four_text_columns
      "[(''A'', []), (''B'', []), (''C'', [])]" "''B''"]
  by (simp add: four_text_columns_def categorical_cols_def getitem_def sortable_def)

text \<open>
  The fourth categorical column of the example frame has two distinct values and is
  offered no selector.
\<close>

theorem filter_selections_fourth_column:
  "''D'' \<in> set (categorical_cols four_text_columns)
   \<and> getitem four_text_columns ''D'' = Inr [Str ''p'', Str ''q'']
   \<and> length (unique [Str ''p'', Str ''q'']) = 2
   \<and> filter_selections (\<lambda>c. []) four_text_columns = Inr [(''A'', []), (''B'', []), (''C'', [])]"
  by (simp add: four_text_columns_def categorical_cols_def getitem_def filter_selections_def
      sortable_def multiselect_def)

subsection \<open>Loading\<close>

text \<open>
  C7. An upload that parses is the dataset. An upload that fails to parse is not fatal:
  the result is that of loading from the remote bucket and key. Without an upload the
  remote source is used directly. When the remote object cannot be fetched or parsed,
  no dataset is returned, and without a dataset the page shows the placeholder and no
  analysis.
\<close>

theorem load_data_precedence:
  "(read_csv sv f = Inr d \<longrightarrow> snd (load_data sv (Some f)) = Some d)
   \<and> (read_csv sv f = Inl e \<longrightarrow> snd (load_data sv (Some f)) = snd (load_data sv None))
   \<and> load_data sv None = load_from_s3 sv
   \<and> (get_object sv S3_BUCKET S3_FILE_KEY = Inl e \<longrightarrow> snd (load_data sv None) = None)
   \<and> (get_object sv S3_BUCKET S3_FILE_KEY = Inr body \<and> read_csv sv body = Inl e \<longrightarrow>
        snd (load_data sv None) = None)
   \<and> (get_object sv S3_BUCKET S3_FILE_KEY = Inr body \<and> read_csv sv body = Inr d \<longrightarrow>
        snd (load_data sv None) = Some d)
   \<and> (snd (load_data sv up) = None \<longrightarrow> main_content sv up picks = Inr Placeholder)"
  by (simp add: load_data_def load_from_s3_def sidebar_def main_content_def)

theorem load_data_precedence_witness:
  "snd (load_data offline_services (Some ''a,b''))
     = Some \<lparr>columns = [(''a'', Object), (''b'', Object)], rows = []\<rparr>
   \<and> snd (load_data offline_services (Some ''a;b'')) = None
   \<and> main_content offline_services (Some ''a;b'') (\<lambda>c. []) = Inr Placeholder"
  using
    load_data_precedence [of offline_services "''a,b''"
      "\<lparr>columns = [(''a'', Object), (''b'', Object)], rows = []\<rparr>" "''parse error''"
      "[]" "Some ''a;b''" "\<lambda>c. []"]
    load_data_precedence [of offline_services "''a;b''" "\<lparr>columns = [], rows = []\<rparr>"
      "''parse error''" "[]" "Some ''a;b''" "\<lambda>c. []"]
    load_data_precedence [of offline_services "''a;b''" "\<lparr>columns = [], rows = []\<rparr>"
      "''no such bucket''" "[]" "Some ''a;b''" "\<lambda>c. []"]
  by (simp add: offline_services_def)

subsection \<open>The derived column\<close>

lemma filter_loop_heap:
  "filter_loop sel h fref = Inr (h', fref') \<Longrightarrow> fref < length h \<Longrightarrow>
   take (length h) h' = h \<and> length h \<le> length h' \<and> fref' < length h'
     \<and> (fref' = fref \<or> length h \<le> fref')
     \<and> apply_filters sel (h ! fref) = Inr (h' ! fref')"
proof (induction sel h fref rule: filter_loop.induct)
  case (1 h fref)
  then show ?case by simp
next
  case (2 col selected_values rest h fref)
  show ?case
  proof (cases "selected_values = []")
    case True
    with 2 show ?thesis by simp
  next
    case False
    with "2.prems" obtain series where s: "getitem (h ! fref) col = Inr series"
      by (auto split: sum.splits)
    let ?h = "h @ [getitem_mask (h ! fref) (isin series selected_values)]"
    from "2.prems" False s have run: "filter_loop rest ?h (length h) = Inr (h', fref')"
      by simp
    from "2.IH"(1) [OF False s run] have ih:
      "take (length ?h) h' = ?h" "length ?h \<le> length h'" "fref' < length h'"
      "fref' = length h \<or> length ?h \<le> fref'"
      "apply_filters rest (?h ! length h) = Inr (h' ! fref')" by simp_all
    have "take (length h) h' = take (length h) (take (length ?h) h')"
      by (simp add: min_def)
    with ih(1) have "take (length h) h' = h" by simp
    moreover from ih(4) have "length h \<le> fref'" by auto
    moreover from ih(5) False s have "apply_filters ((col, selected_values) # rest) (h ! fref) = Inr (h' ! fref')"
      by simp
    ultimately show ?thesis using ih(2,3) by simp
  qed
qed

lemma series_apply_length: "series_apply f cs = Inr ys \<Longrightarrow> length ys = length cs"
  by (induction cs arbitrary: ys) (auto split: sum.splits)

lemma butlast_appended:
  "length vs = length rs \<Longrightarrow> map butlast (map (\<lambda>(r, v). r @ [v]) (zip rs vs)) = rs"
  by (induction rs vs rule: list_induct2') simp_all

lemma add_performance_category_appends:
  assumes "add_performance_category fd = Inr fd'"
    and "''Exam_Score'' \<in> fst ` set (columns fd)"
    and "''Performance_Category'' \<notin> fst ` set (columns fd)"
  shows "(\<exists>dt. columns fd' = columns fd @ [(''Performance_Category'', dt)])
    \<and> map butlast (rows fd') = rows fd"
proof -
  from assms(2) obtain i where i: "col_index ''Exam_Score'' (columns fd) = Some i"
    using col_index_Some_iff by fastforce
  from assms(3) have none: "col_index ''Performance_Category'' (columns fd) = None"
    using col_index_Some_iff [of "''Performance_Category''" "columns fd"] by auto
  from assms(1) i obtain labels where
    l: "series_apply categorize_performance (map (\<lambda>r. r ! i) (rows fd)) = Inr labels"
    and fd': "fd' = setitem fd ''Performance_Category''
        (if labels = [] then snd (columns fd ! i) else Object) (map Str labels)"
    by (auto simp: add_performance_category_def split: sum.splits)
  from series_apply_length [OF l] have "length (map Str labels) = length (rows fd)" by simp
  from butlast_appended [OF this] fd' none show ?thesis
    by (simp add: setitem_def)
qed

text \<open>
  C9, as the code has it. Filtering works on a copy and the derived column is assigned
  on the filtered frame, so the raw frame is never modified. When the dataset has no
  column named Performance_Category, the new column is appended after the original
  columns and every original column and row of the filtered frame is unchanged.
\<close>

theorem performance_category_nondestructive:
  assumes "dref < length h"
    and "filter_then_categorize h dref sel = Inr (h', fref)"
  shows "h' ! dref = h ! dref \<and> fref \<noteq> dref
    \<and> (\<exists>fd. filtered_data (h ! dref) sel = Inr fd
          \<and> add_performance_category fd = Inr (h' ! fref)
          \<and> (''Exam_Score'' \<in> fst ` set (columns fd)
               \<and> ''Performance_Category'' \<notin> fst ` set (columns fd) \<longrightarrow>
              (\<exists>dt. columns (h' ! fref) = columns fd @ [(''Performance_Category'', dt)])
              \<and> map butlast (rows (h' ! fref)) = rows fd))"
proof -
  let ?h1 = "h @ [h ! dref]"
  from assms(2) obtain h2 fd' where
    loop: "filter_loop sel ?h1 (length h) = Inr (h2, fref)"
    and add: "add_performance_category (h2 ! fref) = Inr fd'"
    and h': "h' = h2[fref := fd']"
    by (auto simp: filter_then_categorize_def split: sum.splits)
  from filter_loop_heap [OF loop] have
    tk: "take (length ?h1) h2 = ?h1" and le: "length ?h1 \<le> length h2"
    and fr: "fref < length h2" and pos: "fref = length h \<or> length ?h1 \<le> fref"
    and flt: "apply_filters sel (?h1 ! length h) = Inr (h2 ! fref)" by simp_all
  from pos assms(1) have ne: "fref \<noteq> dref" by auto
  have "h2 ! dref = take (length ?h1) h2 ! dref"
    using assms(1) by simp
  with tk assms(1) have raw: "h2 ! dref = h ! dref"
    by (simp add: nth_append)
  with h' ne have "h' ! dref = h ! dref" by simp
  moreover have "h' ! fref = fd'" using h' fr by simp
  moreover from flt have "filtered_data (h ! dref) sel = Inr (h2 ! fref)"
    by (simp add: filtered_data_def)
  ultimately show ?thesis
    using ne add add_performance_category_appends [OF add] by auto
qed

theorem performance_category_nondestructive_witness:
  "filter_then_categorize
      [\<lparr>columns = [(''Gender'', Object), (''Exam_Score'', Int64)],
        rows = [[Str ''M'', Num (Fin 95)], [Str ''F'', Num (Fin 55)]]\<rparr>] 0
      [(''Gender'', [Str ''F''])]
    = Inr ([\<lparr>columns = [(''Gender'', Object), (''Exam_Score'', Int64)],
             rows = [[Str ''M'', Num (Fin 95)], [Str ''F'', Num (Fin 55)]]\<rparr>,
            \<lparr>columns = [(''Gender'', Object), (''Exam_Score'', Int64)],
             rows = [[Str ''M'', Num (Fin 95)], [Str ''F'', Num (Fin 55)]]\<rparr>,
            \<lparr>columns = [(''Gender'', Object), (''Exam_Score'', Int64),
                        (''Performance_Category'', Object)],
             rows = [[Str ''F'', Num (Fin 55), Str ''Needs Improvement (<60)'']]\<rparr>], 2)
   \<and> (2::nat) \<noteq> 0"
proof -
  have run: "filter_then_categorize
      [\<lparr>columns = [(''Gender'', Object), (''Exam_Score'', Int64)],
        rows = [[Str ''M'', Num (Fin 95)], [Str ''F'', Num (Fin 55)]]\<rparr>] 0
      [(''Gender'', [Str ''F''])]
    = Inr ([\<lparr>columns = [(''Gender'', Object), (''Exam_Score'', Int64)],
             rows = [[Str ''M'', Num (Fin 95)], [Str ''F'', Num (Fin 55)]]\<rparr>,
            \<lparr>columns = [(''Gender'', Object), (''Exam_Score'', Int64)],
             rows = [[Str ''M'', Num (Fin 95)], [Str ''F'', Num (Fin 55)]]\<rparr>,
            \<lparr>columns = [(''Gender'', Object), (''Exam_Score'', Int64),
                        (''Performance_Category'', Object)],
             rows = [[Str ''F'', Num (Fin 55), Str ''Needs Improvement (<60)'']]\<rparr>], 2)"
    by (simp add: filter_then_categorize_def getitem_def getitem_mask_def isin_def
        add_performance_category_def setitem_def)
  have "(0::nat) < length [\<lparr>columns = [(''Gender'', Object), (''Exam_Score'', Int64)],
        rows = [[Str ''M'', Num (Fin 95)], [Str ''F'', Num (Fin 55)]]\<rparr>]" by simp
  from performance_category_nondestructive [OF this run] run show ?thesis by simp
qed

text \<open>
  A dataset that already has a column named Performance_Category: the assignment
  replaces the cells of that source column in the filtered frame.
\<close>

theorem performance_category_overwrites:
  "filter_then_categorize
      [\<lparr>columns = [(''Exam_Score'', Int64), (''Performance_Category'', Object)],
        rows = [[Num (Fin 95), Str ''low'']]\<rparr>] 0 []
    = Inr ([\<lparr>columns = [(''Exam_Score'', Int64), (''Performance_Category'', Object)],
             rows = [[Num (Fin 95), Str ''low'']]\<rparr>,
            \<lparr>columns = [(''Exam_Score'', Int64), (''Performance_Category'', Object)],
             rows = [[Num (Fin 95), Str ''Excellent (90-100)'']]\<rparr>], 1)
   \<and> filtered_data \<lparr>columns = [(''Exam_Score'', Int64), (''Performance_Category'', Object)],
        rows = [[Num (Fin 95), Str ''low'']]\<rparr> []
      = Inr \<lparr>columns = [(''Exam_Score'', Int64), (''Performance_Category'', Object)],
        rows = [[Num (Fin 95), Str ''low'']]\<rparr>"
  by (simp add: filter_then_categorize_def add_performance_category_def setitem_def
      filtered_data_def)

subsection \<open>Correlation matrix\<close>










subsection \<open>Sorting and key insights\<close>

lemma index_filter: "map (\<lambda>i. xs ! i) (filter (\<lambda>i. P (xs ! i)) [0..<length xs]) = filter P xs"
proof -
  have "filter P xs = filter P (map (\<lambda>i. xs ! i) [0..<length xs])"
    by (simp add: map_nth)
  also have "\<dots> = map (\<lambda>i. xs ! i) (filter (\<lambda>i. P (xs ! i)) [0..<length xs])"
    by (simp add: filter_map comp_def)
  finally show ?thesis by simp
qed

lemma present_map:
  "present (map key rs) = map (\<lambda>r. the_fin (key r)) (filter (\<lambda>r. key r \<noteq> NaN) rs)"
proof (induction rs)
  case Nil
  then show ?case by simp
next
  case (Cons r rs)
  then show ?case by (cases "key r") simp_all
qed

lemma mset_take_positions:
  assumes "mset p = mset [0..<length xs]"
  shows "mset (map (\<lambda>i. xs ! i) p) = mset xs"
proof -
  have "mset (map (\<lambda>i. xs ! i) p) = image_mset (\<lambda>i. xs ! i) (mset p)" by simp
  also have "\<dots> = mset (map (\<lambda>i. xs ! i) [0..<length xs])" using assms by simp
  finally show ?thesis by (simp add: map_nth)
qed

lemma valid_argsort_set:
  "valid_argsort kind \<Longrightarrow> set (kind ks) = {0..<length ks}"
  unfolding valid_argsort_def by (metis mset_eq_setD set_upt)

lemma sort_values_parts:
  assumes "valid_argsort kind"
  shows "sort_values kind key ascending rs =
     (let F = filter (\<lambda>r. key r \<noteq> NaN) rs;
          F' = (if ascending then F else rev F);
          S = map (\<lambda>k. F' ! k) (kind (map (\<lambda>r. the_fin (key r)) F'))
      in (if ascending then S else rev S) @ filter (\<lambda>r. key r = NaN) rs)"
proof -
  define F where "F = filter (\<lambda>r. key r \<noteq> NaN) rs"
  define F' where "F' = (if ascending then F else rev F)"
  define I where "I = filter (\<lambda>i. map key rs ! i \<noteq> NaN) [0..<length rs]"
  define I' where "I' = (if ascending then I else rev I)"
  define J where "J = filter (\<lambda>i. map key rs ! i = NaN) [0..<length rs]"
  define nn where "nn = (if ascending then present (map key rs) else rev (present (map key rs)))"
  have I_eq: "I = filter (\<lambda>i. key (rs ! i) \<noteq> NaN) [0..<length rs]"
    unfolding I_def by (intro filter_cong) simp_all
  have J_eq: "J = filter (\<lambda>i. key (rs ! i) = NaN) [0..<length rs]"
    unfolding J_def by (intro filter_cong) simp_all
  have mapI: "map (\<lambda>i. rs ! i) I = F"
    unfolding I_eq F_def by (rule index_filter)
  have mapJ: "map (\<lambda>i. rs ! i) J = filter (\<lambda>r. key r = NaN) rs"
    unfolding J_eq by (rule index_filter)
  have mapI': "map (\<lambda>i. rs ! i) I' = F'"
    unfolding I'_def F'_def using mapI by (auto simp: rev_map [symmetric])
  then have lenI': "length I' = length F'"
    by (metis length_map)
  have nn: "nn = map (\<lambda>r. the_fin (key r)) F'"
    unfolding nn_def F'_def F_def by (simp add: present_map rev_map)
  then have "length nn = length F'" by simp
  with valid_argsort_set [OF assms, of nn] have bound: "\<forall>k\<in>set (kind nn). k < length I'"
    using lenI' by simp
  have "map (\<lambda>i. rs ! i) (map (\<lambda>k. I' ! k) (kind nn)) = map (\<lambda>k. F' ! k) (kind nn)"
  proof -
    have "rs ! (I' ! k) = F' ! k" if "k \<in> set (kind nn)" for k
    proof -
      from that bound have "k < length I'" by simp
      then have "map (\<lambda>i. rs ! i) I' ! k = rs ! (I' ! k)" by simp
      with mapI' show ?thesis by simp
    qed
    then show ?thesis by simp
  qed
  then have "map (\<lambda>i. rs ! i) ((if ascending then map (\<lambda>k. I' ! k) (kind nn)
        else rev (map (\<lambda>k. I' ! k) (kind nn))) @ J)
      = (if ascending then map (\<lambda>k. F' ! k) (kind nn) else rev (map (\<lambda>k. F' ! k) (kind nn)))
        @ filter (\<lambda>r. key r = NaN) rs"
    using mapJ by (simp only: map_append rev_map [symmetric] if_distrib [of "map (\<lambda>i. rs ! i)"] split: if_splits)
  moreover have "sort_values kind key ascending rs =
      map (\<lambda>i. rs ! i) ((if ascending then map (\<lambda>k. I' ! k) (kind nn)
        else rev (map (\<lambda>k. I' ! k) (kind nn))) @ J)"
    unfolding sort_values_def Let_def I_def I'_def J_def nn_def by simp
  ultimately show ?thesis
    unfolding Let_def nn F'_def F_def by simp
qed


lemma insort_key_map:
  "insort_key f (g x) (map g xs) = map g (insort_key (\<lambda>y. f (g y)) x xs)"
  by (induction xs) simp_all

lemma sort_key_map: "sort_key f (map g xs) = map g (sort_key (\<lambda>y. f (g y)) xs)"
  by (induction xs) (simp_all add: insort_key_map)

lemma zip_positions: "(k, i) \<in> set (zip ks [0..<length ks]) \<Longrightarrow> ks ! i = k"
  by (auto simp: set_zip)

lemma valid_from_pairs:
  assumes "mset Z = mset (zip ks [0..<length ks])"
  shows "mset (map snd (sort_key fst Z)) = mset [0..<length ks]
    \<and> sorted (map (\<lambda>i. ks ! i) (map snd (sort_key fst Z)))"
proof -
  have "mset (map snd (sort_key fst Z)) = image_mset snd (mset (zip ks [0..<length ks]))"
    using assms by simp
  also have "\<dots> = mset (map snd (zip ks [0..<length ks]))" by (simp only: mset_map)
  also have "map snd (zip ks [0..<length ks]) = [0..<length ks]"
    by (rule map_snd_zip) simp
  finally have a: "mset (map snd (sort_key fst Z)) = mset [0..<length ks]" .
  from assms have "set Z = set (zip ks [0..<length ks])" by (rule mset_eq_setD)
  then have "\<forall>p\<in>set (sort_key fst Z). ks ! snd p = fst p"
    using zip_positions by fastforce
  then have "map (\<lambda>i. ks ! i) (map snd (sort_key fst Z)) = map fst (sort_key fst Z)"
    by simp
  with a show ?thesis by (simp only: sorted_sort_key simp_thms)
qed

lemma valid_stable_argsort: "valid_argsort stable_argsort"
  unfolding valid_argsort_def stable_argsort_def using valid_from_pairs by blast

lemma stable_argsort_rows:
  "map (\<lambda>k. xs ! k) (stable_argsort (map v xs)) = sort_key v xs"
proof -
  have z: "zip (map v xs) [0..<length xs] = map (\<lambda>i. (v (xs ! i), i)) [0..<length xs]"
    by (rule nth_equalityI) simp_all
  have "map (\<lambda>k. xs ! k) (stable_argsort (map v xs))
      = map (\<lambda>k. xs ! k) (sort_key (\<lambda>i. v (xs ! i)) [0..<length xs])"
    by (simp add: stable_argsort_def z sort_key_map comp_def)
  also have "\<dots> = sort_key v (map (\<lambda>k. xs ! k) [0..<length xs])"
    by (simp add: sort_key_map)
  finally show ?thesis by (simp add: map_nth)
qed

lemma sorted_neg_rev:
  fixes v :: "'a \<Rightarrow> real"
  shows "sorted (map v ys) \<Longrightarrow> sorted (map (\<lambda>x. - v x) (rev ys))"
  by (induction ys) (auto simp: sorted_append)

lemma rev_sort_rev:
  fixes v :: "'a \<Rightarrow> real"
  shows "rev (sort_key v (rev xs)) = sort_key (\<lambda>x. - v x) xs"
proof (rule sym, rule properties_for_sort_key)
  show "mset (rev (sort_key v (rev xs))) = mset xs" by simp
  show "sorted (map (\<lambda>x. - v x) (rev (sort_key v (rev xs))))"
    by (rule sorted_neg_rev) simp
  fix k
  have "filter (\<lambda>x. v x = v k) (sort_key v (rev xs)) = filter (\<lambda>x. v x = v k) (rev xs)"
    by (rule sort_key_stable)
  then have "rev (filter (\<lambda>x. v x = v k) (sort_key v (rev xs))) = filter (\<lambda>x. v x = v k) xs"
    by (simp add: rev_filter)
  then show "filter (\<lambda>x. - v k = - v x) (rev (sort_key v (rev xs))) = filter (\<lambda>x. - v k = - v x) xs"
    by (simp add: rev_filter eq_commute)
qed


lemma sorted_constant:
  fixes g :: "'a \<Rightarrow> real"
  shows "\<forall>x\<in>set ys. g x = c \<Longrightarrow> sorted (map g ys)"
  by (induction ys) auto

lemma sort_after_reverse_sort:
  fixes v :: "'a \<Rightarrow> real"
  shows "sort_key v (sort_key (\<lambda>x. - v x) xs) = sort_key v xs"
proof (rule sym, rule properties_for_sort_key)
  show "mset (sort_key v (sort_key (\<lambda>x. - v x) xs)) = mset xs" by simp
  show "sorted (map v (sort_key v (sort_key (\<lambda>x. - v x) xs)))" by simp
  fix k
  have "sorted (map (\<lambda>x. - v x) (filter (\<lambda>x. v x = v k) xs))"
    by (rule sorted_constant [of _ _ "- v k"]) simp
  then have "sort_key (\<lambda>x. - v x) (filter (\<lambda>x. v x = v k) xs) = filter (\<lambda>x. v x = v k) xs"
    by (rule sort_key_id_if_sorted)
  then have "filter (\<lambda>x. v x = v k) (sort_key v (sort_key (\<lambda>x. - v x) xs))
      = filter (\<lambda>x. v x = v k) xs"
    by (simp add: sort_key_stable filter_sort)
  then show "filter (\<lambda>x. v k = v x) (sort_key v (sort_key (\<lambda>x. - v x) xs))
      = filter (\<lambda>x. v k = v x) xs"
    by (simp add: eq_commute)
qed

lemma arranged:
  assumes "valid_argsort kind"
  shows "mset (map (\<lambda>k. xs ! k) (kind (map v xs))) = mset xs
    \<and> sorted (map v (map (\<lambda>k. xs ! k) (kind (map v xs))))"
proof -
  from assms have p: "mset (kind (map v xs)) = mset [0..<length (map v xs)]"
    and s: "sorted (map (\<lambda>i. map v xs ! i) (kind (map v xs)))"
    unfolding valid_argsort_def by blast+
  from p have "mset (kind (map v xs)) = mset [0..<length xs]" by simp
  then have a: "mset (map (\<lambda>k. xs ! k) (kind (map v xs))) = mset xs"
    by (rule mset_take_positions)
  from valid_argsort_set [OF assms, of "map v xs"]
  have "\<forall>k\<in>set (kind (map v xs)). k < length xs" by simp
  then have "map (\<lambda>i. map v xs ! i) (kind (map v xs))
      = map v (map (\<lambda>k. xs ! k) (kind (map v xs)))"
    by simp
  with s a show ?thesis by simp
qed

lemma float_gt_fin: "float_gt x 0 \<Longrightarrow> x \<noteq> NaN"
  by (cases x) simp_all

lemma float_lt_fin: "float_lt x 0 \<Longrightarrow> x \<noteq> NaN"
  by (cases x) simp_all

lemma filter_fin_pos:
  "filter (\<lambda>e. float_gt (snd e) 0) (filter (\<lambda>e. snd e \<noteq> NaN) es) = filter (\<lambda>e. float_gt (snd e) 0) es"
  by (induction es) (auto dest: float_gt_fin)

lemma filter_fin_neg:
  "filter (\<lambda>e. float_lt (snd e) 0) (filter (\<lambda>e. snd e \<noteq> NaN) es) = filter (\<lambda>e. float_lt (snd e) 0) es"
  by (induction es) (auto dest: float_lt_fin)

lemma filter_nan_none:
  "filter (\<lambda>e. float_gt (snd e) 0) (filter (\<lambda>e. snd e = NaN) es) = []"
  "filter (\<lambda>e. float_lt (snd e) 0) (filter (\<lambda>e. snd e = NaN) es) = []"
  by (induction es) auto


lemma corr_df_parts:
  assumes "valid_argsort kind"
  shows "corr_df kind entries =
     rev (map (\<lambda>k. rev (filter (\<lambda>e. snd e \<noteq> NaN) entries) ! k)
            (kind (map (\<lambda>e. the_fin (snd e)) (rev (filter (\<lambda>e. snd e \<noteq> NaN) entries)))))
     @ filter (\<lambda>e. snd e = NaN) entries"
  unfolding corr_df_def sort_values_parts [OF assms] by (simp add: Let_def)

lemma sort_values_ascending_fin:
  assumes "valid_argsort kind" and "\<forall>e\<in>set G. key e \<noteq> NaN"
  shows "sort_values kind key True G = map (\<lambda>k. G ! k) (kind (map (\<lambda>e. the_fin (key e)) G))"
proof -
  from assms(2) have "filter (\<lambda>e. key e \<noteq> NaN) G = G" "filter (\<lambda>e. key e = NaN) G = []"
    by (simp_all add: filter_empty_conv)
  then show ?thesis
    unfolding sort_values_parts [OF assms(1)] by (simp add: Let_def)
qed

text \<open>
  The order of the key insights. For every arg-sort routine that meets what numpy
  promises, the top positive factors are the first three of the entries with correlation
  above 0 in descending order, and the top negative factors are the first three of the
  entries with correlation below 0 in ascending order. When the routine is stable,
  entries with the same coefficient appear in the original column order.
\<close>

lemma key_insights_ranking:
  assumes "valid_argsort kind"
  shows "(\<exists>P. top_positive kind entries = take 3 P
            \<and> mset P = mset (filter (\<lambda>e. float_gt (snd e) 0) entries)
            \<and> sorted (rev (map (\<lambda>e. the_fin (snd e)) P)))
    \<and> (\<exists>Q. top_negative kind entries = take 3 Q
            \<and> mset Q = mset (filter (\<lambda>e. float_lt (snd e) 0) entries)
            \<and> sorted (map (\<lambda>e. the_fin (snd e)) Q))
    \<and> (kind = stable_argsort \<longrightarrow>
          top_positive kind entries =
            take 3 (sort_key (\<lambda>e. - the_fin (snd e)) (filter (\<lambda>e. float_gt (snd e) 0) entries))
          \<and> top_negative kind entries =
            take 3 (sort_key (\<lambda>e. the_fin (snd e)) (filter (\<lambda>e. float_lt (snd e) 0) entries)))"
proof -
  define v where "v = (\<lambda>e::string \<times> pyfloat. the_fin (snd e))"
  define F where "F = filter (\<lambda>e. snd e \<noteq> NaN) entries"
  define S where "S = map (\<lambda>k. rev F ! k) (kind (map v (rev F)))"
  define P where "P = filter (\<lambda>e. float_gt (snd e) 0) (rev S)"
  define G where "G = filter (\<lambda>e. float_lt (snd e) 0) (rev S)"
  define Q where "Q = map (\<lambda>k. G ! k) (kind (map v G))"
  have df: "corr_df kind entries = rev S @ filter (\<lambda>e. snd e = NaN) entries"
    unfolding S_def F_def v_def by (rule corr_df_parts [OF assms])
  from arranged [OF assms, of "rev F" v] have S: "mset S = mset F" "sorted (map v S)"
    unfolding S_def by simp_all
  have tp: "top_positive kind entries = take 3 P"
    by (simp add: top_positive_def df P_def filter_nan_none)
  have Gfin: "\<forall>e\<in>set G. snd e \<noteq> NaN"
    unfolding G_def by (auto dest: float_lt_fin)
  have tn: "top_negative kind entries = take 3 Q"
    unfolding top_negative_def df Q_def v_def
    using sort_values_ascending_fin [OF assms Gfin] by (simp add: filter_nan_none G_def)
  have mP: "mset P = mset (filter (\<lambda>e. float_gt (snd e) 0) entries)"
  proof -
    have "mset P = filter_mset (\<lambda>e. float_gt (snd e) 0) (mset F)"
      unfolding P_def using S(1) by simp
    also have "\<dots> = mset (filter (\<lambda>e. float_gt (snd e) 0) F)" by simp
    finally show ?thesis unfolding F_def by (simp only: filter_fin_pos)
  qed
  have mG: "mset G = mset (filter (\<lambda>e. float_lt (snd e) 0) entries)"
  proof -
    have "mset G = filter_mset (\<lambda>e. float_lt (snd e) 0) (mset F)"
      unfolding G_def using S(1) by simp
    also have "\<dots> = mset (filter (\<lambda>e. float_lt (snd e) 0) F)" by simp
    finally show ?thesis unfolding F_def by (simp only: filter_fin_neg)
  qed
  have sP: "sorted (rev (map v P))"
  proof -
    have "rev (map v P) = map v (filter (\<lambda>e. float_gt (snd e) 0) S)"
      unfolding P_def by (simp add: rev_map rev_filter)
    with S(2) show ?thesis by (simp add: sorted_filter)
  qed
  from arranged [OF assms, of G v] have Qp: "mset Q = mset G" "sorted (map v Q)"
    unfolding Q_def by simp_all
  have stable: "top_positive kind entries =
            take 3 (sort_key (\<lambda>e. - v e) (filter (\<lambda>e. float_gt (snd e) 0) entries))
          \<and> top_negative kind entries =
            take 3 (sort_key v (filter (\<lambda>e. float_lt (snd e) 0) entries))"
    if k: "kind = stable_argsort"
  proof -
    have "S = sort_key v (rev F)"
      unfolding S_def k by (rule stable_argsort_rows)
    then have rS: "rev S = sort_key (\<lambda>e. - v e) F"
      by (simp add: rev_sort_rev)
    have "P = sort_key (\<lambda>e. - v e) (filter (\<lambda>e. float_gt (snd e) 0) entries)"
      unfolding P_def rS filter_sort F_def by (simp only: filter_fin_pos)
    moreover have Geq: "G = sort_key (\<lambda>e. - v e) (filter (\<lambda>e. float_lt (snd e) 0) entries)"
      unfolding G_def rS filter_sort F_def by (simp only: filter_fin_neg)
    moreover have "Q = sort_key v G"
      unfolding Q_def k by (rule stable_argsort_rows)
    ultimately show ?thesis
      using tp tn by (simp add: sort_after_reverse_sort)
  qed
  from tp tn mP mG sP Qp stable show ?thesis
    unfolding v_def by auto
qed

subsection \<open>A selection that excludes every row\<close>

lemma getitem_no_rows:
  "rows fd = [] \<Longrightarrow> c \<in> fst ` set (columns fd) \<Longrightarrow> getitem fd c = Inr []"
  using col_index_Some_iff [of c "columns fd"] by (auto simp: getitem_def)

lemma to_floats_numbers:
  "list_all is_number cs \<Longrightarrow> \<exists>xs. to_floats e cs = Inr xs \<and> cs = map Num xs"
proof (induction cs)
  case Nil
  then show ?case by simp
next
  case (Cons c cs)
  then show ?case by (cases c) auto
qed

lemma valid_argsort_Nil: "valid_argsort kind \<Longrightarrow> kind [] = []"
  using valid_argsort_set [of kind "[]"] by simp

lemma sort_values_Nil: "valid_argsort kind \<Longrightarrow> sort_values kind key ascending [] = []"
  by (simp add: sort_values_def valid_argsort_Nil)

lemma key_metrics_no_rows:
  assumes "rows fd = []" and "''Exam_Score'' \<in> fst ` set (columns fd)"
    and "getitem data ''Exam_Score'' = Inr ds" and "list_all is_number ds"
  shows "\<exists>sm. key_metrics data fd = Inr \<lparr>scores = Some sm, total_students = 0\<rparr>
    \<and> average sm = NaN \<and> pass_percent sm = NaN \<and> score_min sm = NaN \<and> score_max sm = NaN"
proof -
  from to_floats_numbers [OF assms(4), of TypeError] obtain ys where
    ys: "to_floats TypeError ds = Inr ys" "ds = map Num ys" by blast
  have "\<exists>overall. pass_rate ds = Inr overall"
    unfolding ys(2) pass_rate_numeric by simp
  then obtain overall where "pass_rate ds = Inr overall" ..
  with ys assms(1,3) getitem_no_rows [OF assms(1,2)] show ?thesis
    by (simp add: key_metrics_def pass_rate_def bool_mean_def series_mean_def
        series_min_def series_max_def)
qed

lemma group_summary_no_rows:
  assumes "rows fd = []" and "''Exam_Score'' \<in> fst ` set (columns fd)"
    and "cat \<in> fst ` set (columns fd)" and "valid_argsort kind"
  shows "group_summary kind fd cat = Inr []"
  using getitem_no_rows [OF assms(1,2)] getitem_no_rows [OF assms(1,3)]
  by (simp add: group_summary_def group_keys_def sort_values_Nil [OF assms(4)])

lemma getitem_floats_no_rows:
  "rows fd = [] \<Longrightarrow> set ns \<subseteq> fst ` set (columns fd) \<Longrightarrow>
   getitem_floats fd ns = Inr (replicate (length ns) [])"
  by (induction ns) (simp_all add: getitem_no_rows)

lemma pearson_Nil: "pearson coefficient [] [] = NaN"
  by (simp add: pearson_def)

lemma correlations_no_rows:
  "rows fd = [] \<Longrightarrow> ''Exam_Score'' \<in> fst ` set (columns fd) \<Longrightarrow>
   set cols \<subseteq> fst ` set (columns fd) \<Longrightarrow>
   correlations coefficient fd cols = Inr (map (\<lambda>c. (c, NaN)) cols)"
  by (induction cols) (simp_all add: getitem_no_rows pearson_Nil)

lemma numerical_cols_columns: "set (numerical_cols fd) \<subseteq> fst ` set (columns fd)"
  by (auto simp: numerical_cols_def)

lemma corr_no_rows: "corr coefficient (replicate n []) = replicate n (replicate n NaN)"
  by (auto simp: corr_def pearson_Nil intro!: nth_equalityI)

lemma heatmap_no_rows:
  assumes "rows fd = []" and "''Exam_Score'' \<in> fst ` set (columns fd)"
    and "1 < length (numerical_cols fd)"
  shows "correlation_heatmap coefficient fd =
    Inr (Some (replicate (length (numerical_cols fd) + 1)
                (replicate (length (numerical_cols fd) + 1) NaN)))"
proof -
  have "set (numerical_cols fd @ [''Exam_Score'']) \<subseteq> fst ` set (columns fd)"
    using numerical_cols_columns assms(2) by auto
  from getitem_floats_no_rows [OF assms(1) this] have
    "getitem_floats fd (numerical_cols fd @ [''Exam_Score''])
      = Inr (replicate (length (numerical_cols fd) + 1) [])"
    by (simp only: length_append list.size add_0 One_nat_def)
  moreover from assms(2) have "col_index ''Exam_Score'' (columns fd) \<noteq> None"
    using col_index_Some_iff [of "''Exam_Score''" "columns fd"] by auto
  ultimately show ?thesis
    using assms(3) unfolding correlation_heatmap_def corr_matrix_def
    by (simp only: corr_no_rows if_True if_False sum.case)
qed

lemma insights_all_nan:
  assumes "valid_argsort kind"
  shows "top_positive kind (map (\<lambda>c. (c, NaN)) cols) = []"
    and "top_negative kind (map (\<lambda>c. (c, NaN)) cols) = []"
proof -
  have f: "filter (\<lambda>e. snd e \<noteq> NaN) (map (\<lambda>c. (c, NaN)) cols) = []"
    by (induction cols) simp_all
  from corr_df_parts [OF assms, of "map (\<lambda>c. (c, NaN)) cols"]
  have df: "corr_df kind (map (\<lambda>c. (c, NaN)) cols)
      = filter (\<lambda>e. snd e = NaN) (map (\<lambda>c. (c, NaN)) cols)"
    by (simp add: f valid_argsort_Nil [OF assms])
  show "top_positive kind (map (\<lambda>c. (c, NaN)) cols) = []"
    by (simp add: top_positive_def df filter_nan_none)
  show "top_negative kind (map (\<lambda>c. (c, NaN)) cols) = []"
    by (simp add: top_negative_def df filter_nan_none sort_values_Nil [OF assms])
qed

lemma col_index_update_names:
  "col_index n cs = Some i \<Longrightarrow> map fst (cs[i := (n, t)]) = map fst cs"
proof (induction cs arbitrary: i)
  case Nil
  then show ?case by simp
next
  case (Cons c cs)
  then show ?case
    by (cases c) (auto split: if_splits)
qed

lemma add_performance_category_no_rows:
  assumes "rows fd = []" and "''Exam_Score'' \<in> fst ` set (columns fd)"
  shows "\<exists>fd'. add_performance_category fd = Inr fd' \<and> rows fd' = []
    \<and> fst ` set (columns fd) \<subseteq> fst ` set (columns fd')"
proof -
  from assms(2) obtain i where i: "col_index ''Exam_Score'' (columns fd) = Some i"
    using col_index_Some_iff by fastforce
  show ?thesis
  proof (cases "col_index ''Performance_Category'' (columns fd)")
    case None
    with i assms show ?thesis
      by (auto simp: add_performance_category_def setitem_def)
  next
    case (Some j)
    from col_index_update_names [OF Some] have
      "fst ` set ((columns fd)[j := (''Performance_Category'', snd (columns fd ! i))])
        = fst ` set (columns fd)"
      by (metis set_map)
    with Some i assms show ?thesis
      by (simp add: add_performance_category_def setitem_def)
  qed
qed


lemma getitem_Inr_column: "getitem df c = Inr s \<Longrightarrow> c \<in> fst ` set (columns df)"
  using col_index_Some_iff [of c "columns df"] by (auto simp: getitem_def split: option.splits)

lemma two_students_filtered:
  "filtered_data two_students male_private = Inr (two_students\<lparr>rows := []\<rparr>)"
  by (simp add: filtered_data_def two_students_def male_private_def getitem_def
      getitem_mask_def isin_def)

text \<open>
  C3, as the code has it. When the selection excludes every row of a dataset whose
  outcome column is numeric, filtering returns a frame with the same columns and no rows,
  and nothing raises: the number of students is 0; the average, the pass rate, the
  minimum and the maximum of the score are NaN; the group summary has no group; every
  factor correlation and every entry of the correlation matrix is NaN; and no top factor
  is listed.
\<close>

theorem no_rows_metrics:
  assumes "fst ` set sel \<subseteq> fst ` set (columns data)"
    and "filter (row_retained data sel) (rows data) = []"
    and "getitem data ''Exam_Score'' = Inr ds" and "list_all is_number ds"
    and "cat \<in> fst ` set (columns data)"
    and "valid_argsort kind"
  shows "\<exists>fd fd'. filtered_data data sel = Inr fd \<and> columns fd = columns data \<and> rows fd = []
    \<and> (\<exists>sm. key_metrics data fd = Inr \<lparr>scores = Some sm, total_students = 0\<rparr>
          \<and> average sm = NaN \<and> pass_percent sm = NaN
          \<and> score_min sm = NaN \<and> score_max sm = NaN)
    \<and> add_performance_category fd = Inr fd' \<and> rows fd' = []
    \<and> group_summary kind fd' cat = Inr []
    \<and> correlations coefficient fd' (numerical_cols fd')
        = Inr (map (\<lambda>c. (c, NaN)) (numerical_cols fd'))
    \<and> top_positive kind (map (\<lambda>c. (c, NaN)) (numerical_cols fd')) = []
    \<and> top_negative kind (map (\<lambda>c. (c, NaN)) (numerical_cols fd')) = []
    \<and> (1 < length (numerical_cols fd') \<longrightarrow>
          correlation_heatmap coefficient' fd' =
            Inr (Some (replicate (length (numerical_cols fd') + 1)
                        (replicate (length (numerical_cols fd') + 1) NaN))))"
proof -
  from apply_filters_rows [OF assms(1)] assms(2) obtain fd where fd:
    "filtered_data data sel = Inr fd" "columns fd = columns data" "rows fd = []"
    by (auto simp: filtered_data_def)
  from getitem_Inr_column [OF assms(3)] fd(2) have es: "''Exam_Score'' \<in> fst ` set (columns fd)"
    by simp
  from add_performance_category_no_rows [OF fd(3) es] obtain fd' where fd':
    "add_performance_category fd = Inr fd'" "rows fd' = []"
    "fst ` set (columns fd) \<subseteq> fst ` set (columns fd')" by blast
  from fd' es have es': "''Exam_Score'' \<in> fst ` set (columns fd')" by blast
  from fd' assms(5) fd(2) have cat': "cat \<in> fst ` set (columns fd')" by auto
  note key_metrics_no_rows [OF fd(3) es assms(3,4)]
    group_summary_no_rows [OF fd'(2) es' cat' assms(6)]
    correlations_no_rows [OF fd'(2) es' numerical_cols_columns]
    insights_all_nan [OF assms(6), of "numerical_cols fd'"]
    heatmap_no_rows [OF fd'(2) es']
  with fd fd'(1,2) show ?thesis by blast
qed

theorem no_rows_metrics_witness:
  "\<exists>fd fd'. filtered_data two_students male_private = Inr fd \<and> rows fd = []
     \<and> add_performance_category fd = Inr fd'
     \<and> group_summary stable_argsort fd' ''Gender'' = Inr []
     \<and> (\<forall>coefficient. correlations coefficient fd' (numerical_cols fd')
            = Inr (map (\<lambda>c. (c, NaN)) (numerical_cols fd')))"
proof -
  have a: "fst ` set male_private \<subseteq> fst ` set (columns two_students)"
    by (simp add: male_private_def two_students_def)
  have b: "filter (row_retained two_students male_private) (rows two_students) = []"
    by (simp add: row_retained_def male_private_def two_students_def)
  have c: "getitem two_students ''Exam_Score'' = Inr [Num (Fin 70), Num (Fin 75)]"
    by (simp add: getitem_def two_students_def)
  have d: "list_all is_number [Num (Fin 70), Num (Fin 75)]" by simp
  have e: "''Gender'' \<in> fst ` set (columns two_students)"
    by (simp add: two_students_def)
  note inst = no_rows_metrics [OF a b c d e valid_stable_argsort]
  from inst [of "\<lambda>ps. NaN" "\<lambda>ps. NaN"] obtain fd fd' where
    fd: "filtered_data two_students male_private = Inr fd" "rows fd = []"
      "add_performance_category fd = Inr fd'"
      "group_summary stable_argsort fd' ''Gender'' = Inr []"
    by blast
  have "correlations coefficient fd' (numerical_cols fd')
      = Inr (map (\<lambda>c. (c, NaN)) (numerical_cols fd'))" for coefficient
  proof -
    from inst [of coefficient "\<lambda>ps. NaN"] obtain gd gd' where
      gd: "filtered_data two_students male_private = Inr gd"
        "add_performance_category gd = Inr gd'"
        "correlations coefficient gd' (numerical_cols gd')
          = Inr (map (\<lambda>c. (c, NaN)) (numerical_cols gd'))"
      by blast
    from gd(1) fd(1) have "gd = fd" by simp
    with gd(2) fd(3) have "gd' = fd'" by simp
    with gd(3) show ?thesis by simp
  qed
  with fd show ?thesis by blast
qed

text \<open>
  In the example frame the user can select gender M and school type Private; no row
  has both, and the score metrics of the overview are NaN.
\<close>

theorem no_rows_metrics_nan:
  "filter_selections
      (\<lambda>c. if c = ''Gender'' then [Str ''M'']
            else if c = ''School_Type'' then [Str ''Private''] else [])
      two_students = Inr male_private
   \<and> filtered_data two_students male_private = Inr (two_students\<lparr>rows := []\<rparr>)
   \<and> key_metrics two_students (two_students\<lparr>rows := []\<rparr>) =
       Inr \<lparr>scores = Some \<lparr>average = NaN, average_delta = NaN, pass_percent = NaN,
                             pass_delta = NaN, score_min = NaN, score_max = NaN\<rparr>,
            total_students = 0\<rparr>"
proof (intro conjI)
  show "filter_selections
      (\<lambda>c. if c = ''Gender'' then [Str ''M'']
            else if c = ''School_Type'' then [Str ''Private''] else [])
      two_students = Inr male_private"
    by (simp add: filter_selections_def categorical_cols_def two_students_def getitem_def
        sortable_def multiselect_def male_private_def)
  show "filtered_data two_students male_private = Inr (two_students\<lparr>rows := []\<rparr>)"
    by (rule two_students_filtered)
  show "key_metrics two_students (two_students\<lparr>rows := []\<rparr>) =
       Inr \<lparr>scores = Some \<lparr>average = NaN, average_delta = NaN, pass_percent = NaN,
                             pass_delta = NaN, score_min = NaN, score_max = NaN\<rparr>,
            total_students = 0\<rparr>"
    by (simp add: key_metrics_def two_students_def getitem_def pass_rate_def bool_mean_def
        series_mean_def series_min_def series_max_def)
qed

end
